theory Spec2Isabelle
  imports Complex_Main "HOL-Library.Word"
begin

text \<open>
  A model of the string wrapper \<open>Jaco\<close> of \<open>jaco.ts\<close> and of the free function
  \<open>indexOf\<close>: the surrogate-aware primitives, the searches, \<open>repeat\<close>, the class test
  \<open>isOnly\<close>, the sound-mark and width conversions of kana and the expansion of the
  prolonged sound mark, followed by the properties the specification states of them.
\<close>

section \<open>Strings, numbers and errors of the platform\<close>

text \<open>
  A string is a sequence of 16-bit code units; a character beyond the basic plane is a
  high surrogate followed by a low surrogate. Characters are written by their code unit:
  \<open>0x304B\<close> is hiragana ka, \<open>0x30FC\<close> is the prolonged sound mark.
\<close>

type_synonym char16 = "16 word"
type_synonym jstring = "char16 list"

text \<open>
  The exceptions the modelled code can raise. \<open>Unsupported\<close> is not an exception of the
  platform: it marks a pattern source whose regular-expression syntax (an escape, a closing
  bracket, a quantifier, ...) lies outside the fragment modelled here.
\<close>

datatype error = RangeError | SyntaxError | TypeError | Unsupported

text \<open>
  A number of the platform, as far as \<open>repeat\<close> looks at it: a finite value (taken as an exact
  rational; \<open>Math.max\<close> and \<open>Math.floor\<close> are exact on finite values), the two infinities
  and not-a-number.
\<close>

datatype number = Finite rat | PosInfinity | NegInfinity | NaN

definition isHighSurrogate :: "char16 \<Rightarrow> bool" where
  "isHighSurrogate c = (0xD800 \<le> c \<and> c \<le> 0xDBFF)"

definition isLowSurrogate :: "char16 \<Rightarrow> bool" where
  "isLowSurrogate c = (0xDC00 \<le> c \<and> c \<le> 0xDFFF)"

definition isSurrogate :: "char16 \<Rightarrow> bool" where
  "isSurrogate c = (0xD800 \<le> c \<and> c \<le> 0xDFFF)"

definition isLineTerminator :: "char16 \<Rightarrow> bool" where
  "isLineTerminator c = (c = 0x000A \<or> c = 0x000D \<or> c = 0x2028 \<or> c = 0x2029)"

subsection \<open>\<open>String.prototype.slice\<close> and \<open>String.prototype.substr\<close>\<close>

text \<open>
  Positions are given as integers (the platform truncates a fractional position, reads
  not-a-number as 0 and clamps an infinity as it clamps a large integer); \<open>None\<close> is an
  omitted argument.
\<close>

definition clampIndex :: "nat \<Rightarrow> int \<Rightarrow> nat" where
  "clampIndex len i = (if i < 0 then nat (max (int len + i) 0) else nat (min i (int len)))"

definition String_slice :: "jstring \<Rightarrow> int \<Rightarrow> int option \<Rightarrow> jstring" where
  "String_slice s start end =
     (let len = length s;
          from = clampIndex len start;
          to = (case end of None \<Rightarrow> len | Some e \<Rightarrow> clampIndex len e)
      in take (to - from) (drop from s))"

definition String_substr :: "jstring \<Rightarrow> int \<Rightarrow> int option \<Rightarrow> jstring" where
  "String_substr s start len =
     (let size = length s;
          from = clampIndex size start;
          count = (case len of None \<Rightarrow> size - from
                   | Some n \<Rightarrow> nat (min (max n 0) (int size - int from)))
      in take count (drop from s))"

subsection \<open>Regular expressions\<close>

text \<open>
  A regular expression is modelled by its matcher: \<open>r s q = Some n\<close> when the pattern
  matches \<open>s\<close> at index \<open>q\<close>, the match being \<open>n\<close> code units long, and \<open>None\<close> when
  it does not match there. A regular expression object is taken as freshly built
  (its \<open>lastIndex\<close> is 0).
\<close>

type_synonym RegExp = "jstring \<Rightarrow> nat \<Rightarrow> nat option"

definition RegExp_test :: "RegExp \<Rightarrow> jstring \<Rightarrow> bool" where
  "RegExp_test r s = list_ex (\<lambda>q. r s q \<noteq> None) [0..<Suc (length s)]"

definition literalMatcher :: "jstring \<Rightarrow> RegExp" where
  "literalMatcher lit s q =
     (if q \<le> length s \<and> take (length lit) (drop q s) = lit then Some (length lit) else None)"

definition isSyntaxCharacter :: "char16 \<Rightarrow> bool" where
  "isSyntaxCharacter c = (c \<in> set [0x5C, 0x5E, 0x24, 0x2E, 0x7C, 0x3F, 0x2A, 0x2B,
                                   0x28, 0x29, 0x5B, 0x5D, 0x7B, 0x7D])"

text \<open>\<open>new RegExp(source)\<close> for a source without syntax characters: the pattern of the literal text.\<close>

definition RegExp_new :: "jstring \<Rightarrow> error + RegExp" where
  "RegExp_new source =
     (if list_ex isSyntaxCharacter source then Inl Unsupported else Inr (literalMatcher source))"

text \<open>
  A character class written as a string, as between \<open>[\<close> and \<open>]\<close> of a pattern: a
  sequence of single characters and of ranges \<open>a-b\<close>; a hyphen that does not stand between
  two characters is a character of its own.
\<close>

fun classRanges :: "jstring \<Rightarrow> (char16 \<times> char16) list" where
  "classRanges (a # m # b # cs) =
     (if m = 0x2D then (a, b) # classRanges cs else (a, a) # classRanges (m # b # cs))"
| "classRanges (a # cs) = (a, a) # classRanges cs"
| "classRanges [] = []"

definition inRanges :: "(char16 \<times> char16) list \<Rightarrow> char16 \<Rightarrow> bool" where
  "inRanges rs c = list_ex (\<lambda>(a, b). a \<le> c \<and> c \<le> b) rs"

definition inClass :: "jstring \<Rightarrow> char16 \<Rightarrow> bool" where
  "inClass cls c = inRanges (classRanges cls) c"

text \<open>
  The class of \<open>'[' + characters + ']'\<close> for an arbitrary string: a leading \<open>^\<close> negates,
  a range out of order is a syntax error, and a backslash or a closing bracket leaves the
  modelled fragment.
\<close>

definition classOf :: "jstring \<Rightarrow> error + (char16 \<Rightarrow> bool)" where
  "classOf characters =
     (if list_ex (\<lambda>c. c = 0x5C \<or> c = 0x5D) characters then Inl Unsupported
      else let negated = (characters \<noteq> [] \<and> hd characters = 0x5E);
               rs = classRanges (if negated then tl characters else characters)
           in if list_ex (\<lambda>(a, b). b < a) rs then Inl SyntaxError
              else Inr (\<lambda>c. inRanges rs c \<noteq> negated))"

text \<open>
  The pattern \<open>^[...]+$\<close> with the flags \<open>gm\<close>. With \<open>m\<close>, \<open>^\<close> holds at index 0 and
  after a line terminator, \<open>$\<close> holds at the end and before a line terminator.
  \<open>plusThenEol\<close> matches \<open>[...]+$\<close> at the head of the rest of the string: the class
  greedily, giving characters back until \<open>$\<close> holds.
\<close>

definition atEol :: "jstring \<Rightarrow> bool" where
  "atEol cs = (case cs of [] \<Rightarrow> True | c # _ \<Rightarrow> isLineTerminator c)"

fun plusThenEol :: "(char16 \<Rightarrow> bool) \<Rightarrow> jstring \<Rightarrow> nat option" where
  "plusThenEol cls [] = None"
| "plusThenEol cls (c # cs) =
     (if cls c then
        (case plusThenEol cls cs of
           Some n \<Rightarrow> Some (Suc n)
         | None \<Rightarrow> if atEol cs then Some 1 else None)
      else None)"

definition atBol :: "jstring \<Rightarrow> nat \<Rightarrow> bool" where
  "atBol s q = (q = 0 \<or> (q \<le> length s \<and> isLineTerminator (s ! (q - 1))))"

definition linesOfClass :: "(char16 \<Rightarrow> bool) \<Rightarrow> RegExp" where
  "linesOfClass cls s q = (if atBol s q then plusThenEol cls (drop q s) else None)"

text \<open>
  \<open>String.prototype.split\<close> with a regular expression (no capture groups, no limit):
  \<open>p\<close> is the start of the piece being cut, \<open>q\<close> the index tried next; an empty match at
  \<open>p\<close> is skipped.
\<close>

function splitLoop :: "RegExp \<Rightarrow> jstring \<Rightarrow> nat \<Rightarrow> nat \<Rightarrow> jstring list" where
  "splitLoop r s p q =
     (if q < length s then
        (case r s q of
           None \<Rightarrow> splitLoop r s p (Suc q)
         | Some n \<Rightarrow>
             (let e = min (q + n) (length s)
              in if e = p then splitLoop r s p (Suc q)
                 else take (q - p) (drop p s) # splitLoop r s e e))
      else [drop p s])"
  by pat_completeness auto
termination
  by (relation "measures [\<lambda>(r, s, p, q). length s - q, \<lambda>(r, s, p, q). if p = q then 0 else 1]")
     (auto split: if_splits)

definition RegExp_split :: "RegExp \<Rightarrow> jstring \<Rightarrow> jstring list" where
  "RegExp_split r s =
     (if s = [] then (if r s 0 \<noteq> None then [] else [s]) else splitLoop r s 0 0)"

text \<open>
  \<open>String.prototype.replace\<close> with the global pattern of a literal key and a replacement
  without \<open>$\<close>: every occurrence, left to right, none overlapping. The pattern of the
  empty key matches before every code unit and at the end.
\<close>

function replaceAll :: "jstring \<Rightarrow> jstring \<Rightarrow> jstring \<Rightarrow> jstring" where
  "replaceAll k v [] = (if k = [] then v else [])"
| "replaceAll k v (c # cs) =
     (if k = [] then v @ c # replaceAll k v cs
      else if take (length k) (c # cs) = k then v @ replaceAll k v (drop (length k) (c # cs))
      else c # replaceAll k v cs)"
  by pat_completeness auto
termination
  by (relation "measure (\<lambda>(k, v, s). length s)") auto

text \<open>The global pattern \<open>a|b|...\<close> of single characters, each occurrence replaced.\<close>

definition replaceChars :: "char16 list \<Rightarrow> jstring \<Rightarrow> jstring \<Rightarrow> jstring" where
  "replaceChars cs v s = concat (map (\<lambda>c. if c \<in> set cs then v else [c]) s)"

text \<open>The global pattern \<open>a(?:m1|m2|...)\<close>: the character followed by one of the marks.\<close>

fun replaceBeforeMarks :: "char16 \<Rightarrow> char16 list \<Rightarrow> jstring \<Rightarrow> jstring \<Rightarrow> jstring" where
  "replaceBeforeMarks a ms v (c # d # cs) =
     (if c = a \<and> d \<in> set ms then v @ replaceBeforeMarks a ms v cs
      else c # replaceBeforeMarks a ms v (d # cs))"
| "replaceBeforeMarks a ms v cs = cs"

text \<open>
  The global pattern \<open>([...])\<close> followed by the prolonged sound mark, replaced by the
  matched character and a vowel.
\<close>

fun replaceProlonged :: "char16 list \<Rightarrow> char16 \<Rightarrow> jstring \<Rightarrow> jstring" where
  "replaceProlonged cls v (a # b # cs) =
     (if a \<in> set cls \<and> b = 0x30FC then a # v # replaceProlonged cls v cs
      else a # replaceProlonged cls v (b # cs))"
| "replaceProlonged cls v cs = cs"

section \<open>Character classes\<close>

text \<open>
  Modelled from the spec: the constant \<open>HIRAGANA_CHARS\<close> is imported by \<open>jaco.ts\<close> from
  a file that is not part of the sources at hand. The specification gives the hiragana
  block as U+3041 to U+3096, with the iteration marks, plus the standalone marks U+3099 to
  U+309C. The constant is a string in class syntax.
\<close>

definition HIRAGANA_CHARS :: jstring where
  "HIRAGANA_CHARS = [0x3041, 0x2D, 0x3096, 0x3099, 0x2D, 0x309C, 0x309D, 0x2D, 0x309E]"

text \<open>
  Modelled from the spec: the constant \<open>KATAKANA_CHARS\<close> is imported by \<open>jaco.ts\<close> from
  a file that is not part of the sources at hand. The specification gives the katakana
  block as U+30A1 to U+30FA and U+30FD to U+30FF; the marks are left out of it, as the
  test of the hiragana conversion in \<open>test.js\<close> keeps a spacing mark in place.
\<close>

definition KATAKANA_CHARS :: jstring where
  "KATAKANA_CHARS = [0x30A1, 0x2D, 0x30FA, 0x30FD, 0x2D, 0x30FF]"

text \<open>
  Modelled from the spec: \<open>toPattern\<close> is imported from a file that is not part of the
  sources at hand; it turns a class string into the global pattern of any one character
  of the class. A pattern of this kind is kept as the class string itself.
\<close>

definition toPattern :: "jstring \<Rightarrow> jstring" where
  "toPattern cls = cls"

section \<open>The tables of the conversions\<close>

text \<open>The table of \<open>combinateSoundMarks(true)\<close>: the spacing marks to the combining marks.\<close>

definition combiningMarkTable :: "(jstring \<times> jstring) list" where
  "combiningMarkTable =
    [([0x309B], [0x3099]),
     ([0x309C], [0x309A])]"

text \<open>The table of \<open>combinateSoundMarks\<close>: base kana and combining mark to the precomposed kana, in the order of the source.\<close>

definition combineTable :: "(jstring \<times> jstring) list" where
  "combineTable =
    [([0x304B, 0x3099], [0x304C]), ([0x304D, 0x3099], [0x304E]), ([0x304F, 0x3099], [0x3050]), ([0x3051, 0x3099], [0x3052]), ([0x3053, 0x3099], [0x3054]),
     ([0x3055, 0x3099], [0x3056]), ([0x3057, 0x3099], [0x3058]), ([0x3059, 0x3099], [0x305A]), ([0x305B, 0x3099], [0x305C]), ([0x305D, 0x3099], [0x305E]),
     ([0x305F, 0x3099], [0x3060]), ([0x3061, 0x3099], [0x3062]), ([0x3064, 0x3099], [0x3065]), ([0x3066, 0x3099], [0x3067]), ([0x3068, 0x3099], [0x3069]),
     ([0x306F, 0x3099], [0x3070]), ([0x3072, 0x3099], [0x3073]), ([0x3075, 0x3099], [0x3076]), ([0x3078, 0x3099], [0x3079]), ([0x307B, 0x3099], [0x307C]),
     ([0x30AB, 0x3099], [0x30AC]), ([0x30AD, 0x3099], [0x30AE]), ([0x30AF, 0x3099], [0x30B0]), ([0x30B1, 0x3099], [0x30B2]), ([0x30B3, 0x3099], [0x30B4]),
     ([0x30B5, 0x3099], [0x30B6]), ([0x30B7, 0x3099], [0x30B8]), ([0x30B9, 0x3099], [0x30BA]), ([0x30BB, 0x3099], [0x30BC]), ([0x30BD, 0x3099], [0x30BE]),
     ([0x30BF, 0x3099], [0x30C0]), ([0x30C1, 0x3099], [0x30C2]), ([0x30C4, 0x3099], [0x30C5]), ([0x30C6, 0x3099], [0x30C7]), ([0x30C8, 0x3099], [0x30C9]),
     ([0x30CF, 0x3099], [0x30D0]), ([0x30D2, 0x3099], [0x30D3]), ([0x30D5, 0x3099], [0x30D6]), ([0x30D8, 0x3099], [0x30D9]), ([0x30DB, 0x3099], [0x30DC]),
     ([0x30EF, 0x3099], [0x30F7]), ([0x30A4, 0x3099], [0x30F8]), ([0x30A6, 0x3099], [0x30F4]), ([0x30A8, 0x3099], [0x30F9]), ([0x30FA, 0x3099], [0x30F2]),
     ([0x309D, 0x3099], [0x309E]), ([0x30FD, 0x3099], [0x30FE]),
     ([0x306F, 0x309A], [0x3071]), ([0x3072, 0x309A], [0x3074]), ([0x3075, 0x309A], [0x3077]), ([0x3078, 0x309A], [0x307A]), ([0x307B, 0x309A], [0x307D]),
     ([0x30CF, 0x309A], [0x30D1]), ([0x30D2, 0x309A], [0x30D4]), ([0x30D5, 0x309A], [0x30D7]), ([0x30D8, 0x309A], [0x30DA]), ([0x30DB, 0x309A], [0x30DD])]"

text \<open>The table of \<open>toHiragana\<close> for the four voiced katakana without a hiragana of their own.\<close>

definition archaicVoicedTable :: "(jstring \<times> jstring) list" where
  "archaicVoicedTable =
    [([0x30F7], [0x308F, 0x309B]),
     ([0x30F8], [0x3090, 0x309B]),
     ([0x30F9], [0x3091, 0x309B]),
     ([0x30FA], [0x3092, 0x309B])]"

text \<open>The table of \<open>toNarrowKatakana\<close>.\<close>

definition narrowKatakanaTable :: "(jstring \<times> jstring) list" where
  "narrowKatakanaTable =
    [([0x30A1], [0xFF67]), ([0x30A3], [0xFF68]), ([0x30A5], [0xFF69]), ([0x30A7], [0xFF6A]), ([0x30A9], [0xFF6B]), ([0x30E3], [0xFF6C]),
     ([0x30E5], [0xFF6D]), ([0x30E7], [0xFF6E]), ([0x30C3], [0xFF6F]),
     ([0x30F5], [0xFF76]), ([0x30F6], [0xFF79]),
     ([0x30EE], [0xFF9C]),
     ([0x30FC], [0xFF70]),
     ([0x30A2], [0xFF71]), ([0x30A4], [0xFF72]), ([0x30A6], [0xFF73]), ([0x30A8], [0xFF74]), ([0x30AA], [0xFF75]),
     ([0x30AB], [0xFF76]), ([0x30AD], [0xFF77]), ([0x30AF], [0xFF78]), ([0x30B1], [0xFF79]), ([0x30B3], [0xFF7A]),
     ([0x30B5], [0xFF7B]), ([0x30B7], [0xFF7C]), ([0x30B9], [0xFF7D]), ([0x30BB], [0xFF7E]), ([0x30BD], [0xFF7F]),
     ([0x30BF], [0xFF80]), ([0x30C1], [0xFF81]), ([0x30C4], [0xFF82]), ([0x30C6], [0xFF83]), ([0x30C8], [0xFF84]),
     ([0x30CA], [0xFF85]), ([0x30CB], [0xFF86]), ([0x30CC], [0xFF87]), ([0x30CD], [0xFF88]), ([0x30CE], [0xFF89]),
     ([0x30CF], [0xFF8A]), ([0x30D2], [0xFF8B]), ([0x30D5], [0xFF8C]), ([0x30D8], [0xFF8D]), ([0x30DB], [0xFF8E]),
     ([0x30DE], [0xFF8F]), ([0x30DF], [0xFF90]), ([0x30E0], [0xFF91]), ([0x30E1], [0xFF92]), ([0x30E2], [0xFF93]),
     ([0x30E4], [0xFF94]), ([0x30E6], [0xFF95]), ([0x30E8], [0xFF96]),
     ([0x30E9], [0xFF97]), ([0x30EA], [0xFF98]), ([0x30EB], [0xFF99]), ([0x30EC], [0xFF9A]), ([0x30ED], [0xFF9B]),
     ([0x30EF], [0xFF9C]), ([0x30F3], [0xFF9D]), ([0x30F0], [0xFF72]), ([0x30F1], [0xFF74]), ([0x30F2], [0xFF66]),
     ([0x30AC], [0xFF76, 0xFF9E]), ([0x30AE], [0xFF77, 0xFF9E]), ([0x30B0], [0xFF78, 0xFF9E]), ([0x30B2], [0xFF79, 0xFF9E]), ([0x30B4], [0xFF7A, 0xFF9E]),
     ([0x30B6], [0xFF7B, 0xFF9E]), ([0x30B8], [0xFF7C, 0xFF9E]), ([0x30BA], [0xFF7D, 0xFF9E]), ([0x30BC], [0xFF7E, 0xFF9E]), ([0x30BE], [0xFF7F, 0xFF9E]),
     ([0x30C0], [0xFF80, 0xFF9E]), ([0x30C2], [0xFF81, 0xFF9E]), ([0x30C5], [0xFF82, 0xFF9E]), ([0x30C7], [0xFF83, 0xFF9E]), ([0x30C9], [0xFF84, 0xFF9E]),
     ([0x30D0], [0xFF8A, 0xFF9E]), ([0x30D3], [0xFF8B, 0xFF9E]), ([0x30D6], [0xFF8C, 0xFF9E]), ([0x30D9], [0xFF8D, 0xFF9E]), ([0x30DC], [0xFF8E, 0xFF9E]),
     ([0x30D1], [0xFF8A, 0xFF9F]), ([0x30D4], [0xFF8B, 0xFF9F]), ([0x30D7], [0xFF8C, 0xFF9F]), ([0x30DA], [0xFF8D, 0xFF9F]), ([0x30DD], [0xFF8E, 0xFF9F]),
     ([0x30F7], [0xFF9C, 0xFF9E]), ([0x30F8], [0xFF72, 0xFF9E]), ([0x30F4], [0xFF73, 0xFF9E]), ([0x30F9], [0xFF74, 0xFF9E]), ([0x30FA], [0xFF66, 0xFF9E])]"

text \<open>The table of \<open>toWideKatakana\<close>; the digraphs come first.\<close>

definition wideKatakanaTable :: "(jstring \<times> jstring) list" where
  "wideKatakanaTable =
    [([0xFF76, 0xFF9E], [0x30AC]), ([0xFF77, 0xFF9E], [0x30AE]), ([0xFF78, 0xFF9E], [0x30B0]), ([0xFF79, 0xFF9E], [0x30B2]), ([0xFF7A, 0xFF9E], [0x30B4]),
     ([0xFF7B, 0xFF9E], [0x30B6]), ([0xFF7C, 0xFF9E], [0x30B8]), ([0xFF7D, 0xFF9E], [0x30BA]), ([0xFF7E, 0xFF9E], [0x30BC]), ([0xFF7F, 0xFF9E], [0x30BE]),
     ([0xFF80, 0xFF9E], [0x30C0]), ([0xFF81, 0xFF9E], [0x30C2]), ([0xFF82, 0xFF9E], [0x30C5]), ([0xFF83, 0xFF9E], [0x30C7]), ([0xFF84, 0xFF9E], [0x30C9]),
     ([0xFF8A, 0xFF9E], [0x30D0]), ([0xFF8B, 0xFF9E], [0x30D3]), ([0xFF8C, 0xFF9E], [0x30D6]), ([0xFF8D, 0xFF9E], [0x30D9]), ([0xFF8E, 0xFF9E], [0x30DC]),
     ([0xFF8A, 0xFF9F], [0x30D1]), ([0xFF8B, 0xFF9F], [0x30D4]), ([0xFF8C, 0xFF9F], [0x30D7]), ([0xFF8D, 0xFF9F], [0x30DA]), ([0xFF8E, 0xFF9F], [0x30DD]),
     ([0xFF9C, 0xFF9E], [0x30F7]), ([0xFF72, 0xFF9E], [0x30F8]), ([0xFF73, 0xFF9E], [0x30F4]), ([0xFF74, 0xFF9E], [0x30F9]), ([0xFF66, 0xFF9E], [0x30FA]),
     ([0xFF9E], [0x309B]), ([0xFF9F], [0x309C]),
     ([0xFF67], [0x30A1]), ([0xFF68], [0x30A3]), ([0xFF69], [0x30A5]), ([0xFF6A], [0x30A7]), ([0xFF6B], [0x30A9]),
     ([0xFF6C], [0x30E3]), ([0xFF6D], [0x30E5]), ([0xFF6E], [0x30E7]),
     ([0xFF6F], [0x30C3]), ([0xFF70], [0x30FC]),
     ([0xFF71], [0x30A2]), ([0xFF72], [0x30A4]), ([0xFF73], [0x30A6]), ([0xFF74], [0x30A8]), ([0xFF75], [0x30AA]),
     ([0xFF76], [0x30AB]), ([0xFF77], [0x30AD]), ([0xFF78], [0x30AF]), ([0xFF79], [0x30B1]), ([0xFF7A], [0x30B3]),
     ([0xFF7B], [0x30B5]), ([0xFF7C], [0x30B7]), ([0xFF7D], [0x30B9]), ([0xFF7E], [0x30BB]), ([0xFF7F], [0x30BD]),
     ([0xFF80], [0x30BF]), ([0xFF81], [0x30C1]), ([0xFF82], [0x30C4]), ([0xFF83], [0x30C6]), ([0xFF84], [0x30C8]),
     ([0xFF85], [0x30CA]), ([0xFF86], [0x30CB]), ([0xFF87], [0x30CC]), ([0xFF88], [0x30CD]), ([0xFF89], [0x30CE]),
     ([0xFF8A], [0x30CF]), ([0xFF8B], [0x30D2]), ([0xFF8C], [0x30D5]), ([0xFF8D], [0x30D8]), ([0xFF8E], [0x30DB]),
     ([0xFF8F], [0x30DE]), ([0xFF90], [0x30DF]), ([0xFF91], [0x30E0]), ([0xFF92], [0x30E1]), ([0xFF93], [0x30E2]),
     ([0xFF94], [0x30E4]), ([0xFF95], [0x30E6]), ([0xFF96], [0x30E8]),
     ([0xFF97], [0x30E9]), ([0xFF98], [0x30EA]), ([0xFF99], [0x30EB]), ([0xFF9A], [0x30EC]), ([0xFF9B], [0x30ED]),
     ([0xFF9C], [0x30EF]), ([0xFF66], [0x30F2]), ([0xFF9D], [0x30F3])]"

text \<open>The table of \<open>addVoicedMarks\<close>.\<close>

definition voicedTable :: "(jstring \<times> jstring) list" where
  "voicedTable =
    [([0x304B], [0x304C]), ([0x304D], [0x304E]), ([0x304F], [0x3050]), ([0x3051], [0x3052]), ([0x3053], [0x3054]),
     ([0x3055], [0x3056]), ([0x3057], [0x3058]), ([0x3059], [0x305A]), ([0x305B], [0x305C]), ([0x305D], [0x305E]),
     ([0x305F], [0x3060]), ([0x3061], [0x3062]), ([0x3064], [0x3065]), ([0x3066], [0x3067]), ([0x3068], [0x3069]),
     ([0x306F], [0x3070]), ([0x3072], [0x3073]), ([0x3075], [0x3076]), ([0x3078], [0x3079]), ([0x307B], [0x307C]),
     ([0x30AB], [0x30AC]), ([0x30AD], [0x30AE]), ([0x30AF], [0x30B0]), ([0x30B1], [0x30B2]), ([0x30B3], [0x30B4]),
     ([0x30B5], [0x30B6]), ([0x30B7], [0x30B8]), ([0x30B9], [0x30BA]), ([0x30BB], [0x30BC]), ([0x30BD], [0x30BE]),
     ([0x30BF], [0x30C0]), ([0x30C1], [0x30C2]), ([0x30C4], [0x30C5]), ([0x30C6], [0x30C7]), ([0x30C8], [0x30C9]),
     ([0x30CF], [0x30D0]), ([0x30D2], [0x30D3]), ([0x30D5], [0x30D6]), ([0x30D8], [0x30D9]), ([0x30DB], [0x30DC]),
     ([0x30EF], [0x30F7]), ([0x30A4], [0x30F8]), ([0x30A6], [0x30F4]), ([0x30A8], [0x30F9]), ([0x30FA], [0x30F2]),
     ([0x309D], [0x309E]), ([0x30FD], [0x30FE])]"

text \<open>
  The fourteen replacements of \<open>convertProlongedSoundMarks\<close>, in the order of the source:
  the class of the character before the mark and the character that replaces the mark.
\<close>

definition vowelClasses :: "(jstring \<times> char16) list" where
  "vowelClasses =
    [([0x3042, 0x3041, 0x304B, 0x3095, 0x304C, 0x3055, 0x3056, 0x305F, 0x3060, 0x306A,
       0x306F, 0x3070, 0x3071, 0x307E, 0x3084, 0x3083, 0x3089, 0x308F, 0x308E],
      0x3042),
     ([0x3044, 0x3043, 0x304D, 0x304E, 0x3057, 0x3058, 0x3061, 0x3062, 0x306B, 0x3072,
       0x3073, 0x3074, 0x307F, 0x308A, 0x3090],
      0x3044),
     ([0x3046, 0x3045, 0x3094, 0x304F, 0x3050, 0x3059, 0x305A, 0x3064, 0x3065, 0x306C,
       0x3075, 0x3076, 0x3077, 0x3080, 0x3086, 0x3085, 0x308B],
      0x3046),
     ([0x3048, 0x3047, 0x3051, 0x3096, 0x3052, 0x305B, 0x305C, 0x3066, 0x3067, 0x306D,
       0x3078, 0x3079, 0x307A, 0x3081, 0x308C, 0x3091],
      0x3048),
     ([0x304A, 0x3049, 0x3053, 0x3054, 0x305D, 0x305E, 0x3068, 0x3069, 0x306E, 0x307B,
       0x307C, 0x307D, 0x3082, 0x3088, 0x3087, 0x308D, 0x3092],
      0x304A),
     ([0x3093],
      0x3093),
     ([0x3063],
      0x3063),
     ([0x30A2, 0x30A1, 0x30AB, 0x30F5, 0x30AC, 0x30B5, 0x30B6, 0x30BF, 0x30C0, 0x30CA,
       0x30CF, 0x30D0, 0x30D1, 0x30DE, 0x30E4, 0x30E3, 0x30E9, 0x30EF, 0x30EE, 0x30F7],
      0x30A2),
     ([0x30A4, 0x30A3, 0x30AD, 0x30AE, 0x30B7, 0x30B8, 0x30C1, 0x30C2, 0x30CB, 0x30D2,
       0x30D3, 0x30D4, 0x30DF, 0x30EA, 0x30F0, 0x30F8],
      0x30A4),
     ([0x30A6, 0x30A5, 0x30F4, 0x30AF, 0x30B0, 0x30B9, 0x30BA, 0x30C4, 0x30C5, 0x30CC,
       0x30D5, 0x30D6, 0x30D7, 0x30E0, 0x30E6, 0x30E5, 0x30EB],
      0x30A6),
     ([0x30A8, 0x30A7, 0x30B1, 0x30F6, 0x30B2, 0x30BB, 0x30BC, 0x30C6, 0x30C7, 0x30CD,
       0x30D8, 0x30D9, 0x30DA, 0x30E1, 0x30EC, 0x30F1, 0x30F9],
      0x30A8),
     ([0x30AA, 0x30A9, 0x30B3, 0x30B4, 0x30BD, 0x30BE, 0x30C8, 0x30C9, 0x30CE, 0x30DB,
       0x30DC, 0x30DD, 0x30E2, 0x30E8, 0x30E7, 0x30ED, 0x30F2, 0x30FA],
      0x30AA),
     ([0x30F3],
      0x30F3),
     ([0x30C3],
      0x30C3)]"

section \<open>The wrapper class\<close>

text \<open>
  An instance holds one string, the private field \<open>$\<close>. A method that changes the
  instance and returns it is a function to the changed instance.
\<close>

record Jaco =
  buffer :: jstring

definition new_Jaco :: "jstring \<Rightarrow> Jaco" where
  "new_Jaco s = \<lparr>buffer = s\<rparr>"

text \<open>
  \<open>_toArray\<close>: all matches of the pattern "a high surrogate and a low surrogate, or a
  code unit that is no surrogate", left to right. A code unit at which neither
  alternative matches is passed over.
\<close>

fun matchCharacters :: "jstring \<Rightarrow> jstring list" where
  "matchCharacters [] = []"
| "matchCharacters [c] = (if isSurrogate c then [] else [[c]])"
| "matchCharacters (h # l # cs) =
     (if isHighSurrogate h \<and> isLowSurrogate l then [h, l] # matchCharacters cs
      else if \<not> isSurrogate h then [h] # matchCharacters (l # cs)
      else matchCharacters (l # cs))"

definition toArray :: "Jaco \<Rightarrow> jstring list" where
  "toArray w = matchCharacters (buffer w)"

definition length_Jaco :: "Jaco \<Rightarrow> nat" where
  "length_Jaco w = length (toArray w)"

definition size_Jaco :: "Jaco \<Rightarrow> nat" where
  "size_Jaco w = length (buffer w)"

subsection \<open>\<open>indexOf\<close>\<close>

fun indexFrom :: "'a list \<Rightarrow> 'a \<Rightarrow> nat \<Rightarrow> int" where
  "indexFrom [] x k = - 1"
| "indexFrom (y # ys) x k = (if y = x then int k else indexFrom ys x (Suc k))"

text \<open>\<open>Array.prototype.indexOf\<close>: the first index from \<open>fromIndex\<close> on of an element equal to \<open>x\<close>.\<close>

definition Array_indexOf :: "'a list \<Rightarrow> 'a \<Rightarrow> int \<Rightarrow> int" where
  "Array_indexOf xs x fromIndex =
     (let len = int (length xs)
      in if fromIndex \<ge> len then - 1
         else let k = nat (if fromIndex \<ge> 0 then fromIndex else max (len + fromIndex) 0)
              in indexFrom (drop k xs) x k)"

definition indexOf :: "Jaco \<Rightarrow> jstring \<Rightarrow> int \<Rightarrow> int" where
  "indexOf w str fromIndex = Array_indexOf (toArray w) str fromIndex"

subsection \<open>\<open>repeat\<close>\<close>

text \<open>
  \<open>Math.floor(Math.max(times, 0))\<close>: a finite value becomes a whole number that is not
  negative, minus infinity becomes 0, plus infinity and not-a-number stay.
\<close>

datatype count = Count nat | Infinite | NotANumber

fun floorMax0 :: "number \<Rightarrow> count" where
  "floorMax0 (Finite q) = Count (nat \<lfloor>max q 0\<rfloor>)"
| "floorMax0 PosInfinity = Infinite"
| "floorMax0 NegInfinity = Count 0"
| "floorMax0 NaN = NotANumber"

text \<open>\<open>while (times--) res.push(this.$)\<close> on a whole number.\<close>

fun pushTimes :: "nat \<Rightarrow> jstring \<Rightarrow> jstring list \<Rightarrow> jstring list" where
  "pushTimes 0 s res = res"
| "pushTimes (Suc n) s res = pushTimes n s (res @ [s])"

definition repeat :: "Jaco \<Rightarrow> number \<Rightarrow> error + Jaco" where
  "repeat w count =
     (case floorMax0 count of
        Infinite \<Rightarrow> Inl RangeError
      | NotANumber \<Rightarrow> Inr (w\<lparr>buffer := concat []\<rparr>)
      | Count n \<Rightarrow> Inr (w\<lparr>buffer := concat (pushTimes n (buffer w) [])\<rparr>))"

subsection \<open>\<open>replaceFromMap\<close>, \<open>search\<close>, \<open>slice\<close>, \<open>substr\<close>, \<open>test\<close>, \<open>isOnly\<close>\<close>

text \<open>
  The map is kept as the list of its entries in the order of the source, the order in
  which the loop visits them. Each key is compiled to a global pattern; the keys of the
  tables above are literal text.
\<close>

definition replaceFromMap :: "Jaco \<Rightarrow> (jstring \<times> jstring) list \<Rightarrow> Jaco" where
  "replaceFromMap w convMap =
     w\<lparr>buffer := fold (\<lambda>(needle, replace) s. replaceAll needle replace s) convMap (buffer w)\<rparr>"

datatype searcher = Pattern RegExp | Text jstring

definition search :: "Jaco \<Rightarrow> searcher \<Rightarrow> error + int" where
  "search w searcher =
     (case (case searcher of Pattern r \<Rightarrow> Inr r | Text s \<Rightarrow> RegExp_new s) of
        Inl e \<Rightarrow> Inl e
      | Inr reg \<Rightarrow>
          (let before = (case RegExp_split reg (buffer w) of [] \<Rightarrow> [] | x # _ \<Rightarrow> x)
           in Inr (int (length_Jaco (new_Jaco before)))))"

definition slice :: "Jaco \<Rightarrow> int \<Rightarrow> int option \<Rightarrow> Jaco" where
  "slice w from to = new_Jaco (String_slice (buffer w) from to)"

definition substr :: "Jaco \<Rightarrow> int \<Rightarrow> int option \<Rightarrow> Jaco" where
  "substr w start len = new_Jaco (String_slice (buffer w) start len)"

definition test :: "Jaco \<Rightarrow> searcher \<Rightarrow> bool" where
  "test w pattern =
     (case pattern of Text s \<Rightarrow> buffer w = s | Pattern r \<Rightarrow> RegExp_test r (buffer w))"

definition isOnly :: "Jaco \<Rightarrow> jstring \<Rightarrow> error + bool" where
  "isOnly w characters =
     (case classOf characters of
        Inl e \<Rightarrow> Inl e
      | Inr cls \<Rightarrow> Inr (test w (Pattern (linesOfClass cls))))"

subsection \<open>Sound marks and the kana conversions\<close>

text \<open>
  \<open>_shift\<close>: every character the pattern of the class matches is replaced by the
  character \<open>shiftNum\<close> code units further; \<open>String.fromCharCode\<close> wraps at 16 bits.
\<close>

definition shift :: "Jaco \<Rightarrow> jstring \<Rightarrow> int \<Rightarrow> Jaco" where
  "shift w needle shiftNum =
     w\<lparr>buffer := map (\<lambda>c. if inClass needle c then c + word_of_int shiftNum else c) (buffer w)\<rparr>"

text \<open>
  \<open>remove\<close> replaces the matches of a pattern by the empty string; the patterns it is
  called with here are global alternatives of single characters, given as their list.
\<close>

definition remove :: "Jaco \<Rightarrow> char16 list \<Rightarrow> Jaco" where
  "remove w pattern = w\<lparr>buffer := replaceChars pattern [] (buffer w)\<rparr>"

definition combinateSoundMarks :: "Jaco \<Rightarrow> bool \<Rightarrow> Jaco" where
  "combinateSoundMarks w isConvertCombiningSoundMarks =
     (if \<not> isConvertCombiningSoundMarks
      then replaceFromMap (replaceFromMap w combiningMarkTable) combineTable
      else replaceFromMap w combiningMarkTable)"

definition toWideKatakana :: "Jaco \<Rightarrow> Jaco" where
  "toWideKatakana w = replaceFromMap w wideKatakanaTable"

definition toHiragana :: "Jaco \<Rightarrow> bool \<Rightarrow> Jaco" where
  "toHiragana w isCombinate =
     (let w1 = toWideKatakana w;
          w2 = replaceFromMap w1 archaicVoicedTable;
          w3 = shift w2 (toPattern KATAKANA_CHARS) (- 96)
      in if isCombinate then combinateSoundMarks w3 False else w3)"

definition toKatakana :: "Jaco \<Rightarrow> bool \<Rightarrow> Jaco" where
  "toKatakana w toWide =
     (let w1 = (if toWide then toWideKatakana w else w);
          marks = [0x309B, 0x3099, 0xFF9E];
          s1 = replaceBeforeMarks 0x308F marks [0x30F7] (buffer w1);
          s2 = replaceBeforeMarks 0x3090 marks [0x30F8] s1;
          s3 = replaceBeforeMarks 0x3091 marks [0x30F9] s2;
          s4 = replaceBeforeMarks 0x3092 marks [0x30FA] s3
      in shift (w1\<lparr>buffer := s4\<rparr>) (toPattern HIRAGANA_CHARS) 96)"

definition toNarrowKatakana :: "Jaco \<Rightarrow> bool \<Rightarrow> Jaco" where
  "toNarrowKatakana w fromHiragana =
     (let w1 = (if fromHiragana then toKatakana w True else w);
          s1 = replaceChars [0x309B, 0x3099] [0xFF9E] (buffer w1);
          s2 = replaceChars [0x309C, 0x309A] [0xFF9F] s1
      in replaceFromMap (w1\<lparr>buffer := s2\<rparr>) narrowKatakanaTable)"

definition addVoicedMarks :: "Jaco \<Rightarrow> Jaco" where
  "addVoicedMarks w =
     replaceFromMap
       (remove (remove w [0x309B, 0x3099, 0xFF9E]) [0x309C, 0x309A, 0xFF9F])
       voicedTable"

subsection \<open>\<open>convertProlongedSoundMarks\<close>\<close>

definition conv :: "jstring \<Rightarrow> jstring" where
  "conv str = fold (\<lambda>(cls, v) s. replaceProlonged cls v s) vowelClasses str"

text \<open>
  The test of the loop: the pattern of a character of the hiragana or katakana class
  followed by the prolonged sound mark matches somewhere.
\<close>

fun kanaWithProlongedSoundMarksPattern :: "jstring \<Rightarrow> bool" where
  "kanaWithProlongedSoundMarksPattern (a # b # cs) =
     ((inClass (HIRAGANA_CHARS @ KATAKANA_CHARS) a \<and> b = 0x30FC)
      \<or> kanaWithProlongedSoundMarksPattern (b # cs))"
| "kanaWithProlongedSoundMarksPattern cs = False"

text \<open>The loop may run forever: \<open>None\<close> is the loop that does not return.\<close>

partial_function (option) convertLoop :: "jstring \<Rightarrow> jstring option" where
  "convertLoop converted =
     (if kanaWithProlongedSoundMarksPattern converted then convertLoop (conv converted)
      else Some converted)"

definition convertProlongedSoundMarks :: "Jaco \<Rightarrow> Jaco option" where
  "convertProlongedSoundMarks w =
     (case convertLoop (buffer w) of None \<Rightarrow> None | Some s \<Rightarrow> Some (w\<lparr>buffer := s\<rparr>))"

section \<open>The free functions\<close>

text \<open>
  Modelled from the spec: \<open>slice\<close> is imported by \<open>indexOf.js\<close> from a file that is not
  part of the sources at hand. The specification makes a free function the stateless
  counterpart of the wrapper method of its name, with the same parameters.
\<close>

definition slice_fn :: "jstring \<Rightarrow> int \<Rightarrow> int option \<Rightarrow> jstring" where
  "slice_fn str from to = String_slice str from to"

text \<open>
  Modelled from the spec: \<open>is\<close> is imported by \<open>indexOf.js\<close> from a file that is not part
  of the sources at hand; the counterpart of the wrapper's full-equality test.
\<close>

definition is_fn :: "jstring \<Rightarrow> jstring \<Rightarrow> bool" where
  "is_fn str target = (str = target)"

text \<open>
  Modelled from the spec: \<open>arrayize\<close> is imported by \<open>indexOf.js\<close> from a file that is not
  part of the sources at hand; the array-izer of the specification, which is the
  \<open>_toArray\<close> of the wrapper on a plain string.
\<close>

definition arrayize :: "jstring \<Rightarrow> jstring list" where
  "arrayize str = matchCharacters str"

text \<open>
  Modelled from the spec: \<open>split\<close> is imported by \<open>indexOf.js\<close> from a file that is not
  part of the sources at hand. The specification has no wrapper method of this name and
  speaks of locating a match "via splitting": the split of the platform at a separator
  string. \<open>splitAt\<close> cuts at every occurrence of a separator that is not empty; the empty
  separator cuts between all code units.
\<close>

function splitAt :: "jstring \<Rightarrow> jstring \<Rightarrow> jstring \<Rightarrow> jstring list" where
  "splitAt sep piece [] = [piece]"
| "splitAt sep piece (c # cs) =
     (if sep \<noteq> [] \<and> take (length sep) (c # cs) = sep
      then piece # splitAt sep [] (drop (length sep) (c # cs))
      else splitAt sep (piece @ [c]) cs)"
  by pat_completeness auto
termination
  by (relation "measure (\<lambda>(sep, piece, s). length s)") auto

definition split_fn :: "jstring \<Rightarrow> jstring \<Rightarrow> jstring list" where
  "split_fn str separator =
     (if separator = [] then map (\<lambda>c. [c]) str else splitAt separator [] str)"

text \<open>
  \<open>indexOf(str, search, fromIndex)\<close>. The first piece of a split is missing only when
  both strings are empty; the comparison then fails on the missing value.
\<close>

definition indexOf_fn :: "jstring \<Rightarrow> jstring \<Rightarrow> int \<Rightarrow> error + int" where
  "indexOf_fn str searchStr fromIndex =
     (let sliced = slice_fn str fromIndex None
      in case split_fn sliced searchStr of
           [] \<Rightarrow> Inl TypeError
         | splited # _ \<Rightarrow>
             if is_fn str splited then Inr (- 1)
             else Inr (int (length (arrayize splited)) + fromIndex))"

section \<open>Notions of the specification\<close>

text \<open>
  A string is well formed when every surrogate code unit belongs to a pair (a high
  surrogate directly followed by a low one); it has an astral character when such a pair
  occurs in it.
\<close>

fun wellFormed :: "jstring \<Rightarrow> bool" where
  "wellFormed [] = True"
| "wellFormed [c] = (\<not> isSurrogate c)"
| "wellFormed (h # l # cs) =
     (if isHighSurrogate h \<and> isLowSurrogate l then wellFormed cs
      else \<not> isSurrogate h \<and> wellFormed (l # cs))"

fun hasSurrogatePair :: "jstring \<Rightarrow> bool" where
  "hasSurrogatePair (h # l # cs) =
     ((isHighSurrogate h \<and> isLowSurrogate l) \<or> hasSurrogatePair (l # cs))"
| "hasSurrogatePair cs = False"

text \<open>
  The voiced and semi-voiced katakana pairs of the width tables: the narrow digraph and
  the wide precomposed character of every entry of \<open>wideKatakanaTable\<close> whose key has two
  code units.
\<close>

definition voicedPairs :: "(jstring \<times> jstring) list" where
  "voicedPairs = filter (\<lambda>(n, w). length n = 2) wideKatakanaTable"

text \<open>
  The standalone voicing and semi-voicing marks: spacing, combining and half-width.
\<close>

definition isSoundMark :: "char16 \<Rightarrow> bool" where
  "isSoundMark c = (c \<in> set [0x309B, 0x3099, 0xFF9E, 0x309C, 0x309A, 0xFF9F])"

text \<open>
  The voiced form of a character, as the specification has it: each voicing-eligible
  base kana with its voiced form, among them \<open>wa\<close>, \<open>i\<close>, \<open>u\<close>, \<open>e\<close> and \<open>wo\<close> for
  the katakana row U+30F7, U+30F8, U+30F4, U+30F9, U+30FA, and the two iteration marks;
  a character without a voiced form is its own.
\<close>

definition voicedFormTable :: "(char16 \<times> char16) list" where
  "voicedFormTable =
    [(0x304B, 0x304C), (0x304D, 0x304E), (0x304F, 0x3050), (0x3051, 0x3052), (0x3053, 0x3054),
     (0x3055, 0x3056), (0x3057, 0x3058), (0x3059, 0x305A), (0x305B, 0x305C), (0x305D, 0x305E),
     (0x305F, 0x3060), (0x3061, 0x3062), (0x3064, 0x3065), (0x3066, 0x3067), (0x3068, 0x3069),
     (0x306F, 0x3070), (0x3072, 0x3073), (0x3075, 0x3076), (0x3078, 0x3079), (0x307B, 0x307C),
     (0x30AB, 0x30AC), (0x30AD, 0x30AE), (0x30AF, 0x30B0), (0x30B1, 0x30B2), (0x30B3, 0x30B4),
     (0x30B5, 0x30B6), (0x30B7, 0x30B8), (0x30B9, 0x30BA), (0x30BB, 0x30BC), (0x30BD, 0x30BE),
     (0x30BF, 0x30C0), (0x30C1, 0x30C2), (0x30C4, 0x30C5), (0x30C6, 0x30C7), (0x30C8, 0x30C9),
     (0x30CF, 0x30D0), (0x30D2, 0x30D3), (0x30D5, 0x30D6), (0x30D8, 0x30D9), (0x30DB, 0x30DC),
     (0x30EF, 0x30F7), (0x30A4, 0x30F8), (0x30A6, 0x30F4), (0x30A8, 0x30F9), (0x30F2, 0x30FA),
     (0x309D, 0x309E), (0x30FD, 0x30FE)]"

definition voicedForm :: "char16 \<Rightarrow> char16" where
  "voicedForm c = (case map_of voicedFormTable c of Some v \<Rightarrow> v | None \<Rightarrow> c)"

text \<open>
  A table whose keys and values are single characters acts on a string character by
  character: \<open>charMap\<close> is what the entries, applied in their order, make of one
  character.
\<close>

definition replaceChar :: "char16 \<Rightarrow> char16 \<Rightarrow> char16 \<Rightarrow> char16" where
  "replaceChar k v c = (if c = k then v else c)"

definition charMap :: "(jstring \<times> jstring) list \<Rightarrow> char16 \<Rightarrow> char16" where
  "charMap tbl c = fold (\<lambda>(k, v). replaceChar (hd k) (hd v)) tbl c"


text \<open>The combining mark for a spacing mark; every other character is kept.\<close>

definition toCombiningMark :: "char16 \<Rightarrow> char16" where
  "toCombiningMark c = (if c = 0x309B then 0x3099 else if c = 0x309C then 0x309A else c)"

text \<open>\<open>occurs k s\<close>: the key is found somewhere in the string.\<close>

fun occurs :: "jstring \<Rightarrow> jstring \<Rightarrow> bool" where
  "occurs k [] = (k = [])"
| "occurs k (c # cs) = (take (length k) (c # cs) = k \<or> occurs k cs)"


section \<open>Properties\<close>

subsection \<open>The tests of the repository\<close>

text \<open>
  The two short tests of \<open>test.js\<close> (narrow voiced digraphs to wide katakana, wide voiced
  katakana to hiragana) and the end of its long fixtures (the voiced katakana without a
  hiragana of their own, without and with combination) hold in the model.
\<close>

lemma tests_of_the_repository:
  "buffer (toKatakana \<lparr>buffer = [0xFF76, 0xFF9E, 0xFF76, 0xFF9E, 0xFF76, 0xFF9E, 0xFF76, 0xFF9E,
       0xFF76, 0xFF9E, 0xFF76, 0xFF9E, 0xFF76, 0xFF9E, 0xFF76, 0xFF9E]\<rparr> True)
     = [0x30AC, 0x30AC, 0x30AC, 0x30AC, 0x30AC, 0x30AC, 0x30AC, 0x30AC]"
  "buffer (toHiragana \<lparr>buffer = [0x30AC, 0x30AC, 0x30AC, 0x30AC, 0x30AC, 0x30AC, 0x30AC, 0x30AC]\<rparr> False)
     = [0x304C, 0x304C, 0x304C, 0x304C, 0x304C, 0x304C, 0x304C, 0x304C]"
  "buffer (toHiragana \<lparr>buffer = [0x30F7, 0x30F8, 0x30F4, 0x30F9, 0x30FA]\<rparr> False)
     = [0x308F, 0x309B, 0x3090, 0x309B, 0x3094, 0x3091, 0x309B, 0x3092, 0x309B]"
  "buffer (toHiragana \<lparr>buffer = [0x30F7, 0x30F8, 0x30F4, 0x30F9, 0x30FA]\<rparr> True)
     = [0x308F, 0x3099, 0x3090, 0x3099, 0x3094, 0x3091, 0x3099, 0x3092, 0x3099]"
  by code_simp+

text \<open>
  The keys of the tables hold no syntax character of a pattern and the values no \<open>$\<close>,
  so each key is the pattern of its literal text and each value is inserted as it is.
\<close>

lemma tables_are_literal:
  "list_all (\<lambda>(k, v). k \<noteq> [] \<and> \<not> list_ex isSyntaxCharacter k \<and> 0x24 \<notin> set v)
     (combiningMarkTable @ combineTable @ archaicVoicedTable @ narrowKatakanaTable
        @ wideKatakanaTable @ voicedTable)"
  by code_simp

subsection \<open>Surrogates and the array-izer\<close>

lemma high_is_surrogate: "isHighSurrogate c \<Longrightarrow> isSurrogate c"
  unfolding isHighSurrogate_def isSurrogate_def word_le_nat_alt by simp

lemma matchCharacters_length_le: "length (matchCharacters s) \<le> length s"
  by (induction s rule: matchCharacters.induct) auto

lemma matchCharacters_concat: "wellFormed s \<Longrightarrow> concat (matchCharacters s) = s"
  by (induction s rule: matchCharacters.induct) (auto split: if_splits)

lemma matchCharacters_length_pairs:
  "wellFormed s \<Longrightarrow> (length (matchCharacters s) = length s) = (\<not> hasSurrogatePair s)"
proof (induction s rule: matchCharacters.induct)
  case 1
  then show ?case by simp
next
  case (2 c)
  then show ?case by simp
next
  case (3 h l cs)
  show ?case
  proof (cases "isHighSurrogate h \<and> isLowSurrogate l")
    case True
    have "length (matchCharacters cs) \<le> length cs" by (rule matchCharacters_length_le)
    with True show ?thesis by simp
  next
    case False
    with "3.prems" have ns: "\<not> isSurrogate h" and wf: "wellFormed (l # cs)" by auto
    from "3.IH"(2) [OF False ns wf] False ns show ?thesis by auto
  qed
qed

lemma matchCharacters_length_surrogates:
  "(length (matchCharacters s) = length s) = (\<not> list_ex isSurrogate s)"
proof (induction s rule: matchCharacters.induct)
  case 1
  then show ?case by simp
next
  case (2 c)
  then show ?case by simp
next
  case (3 h l cs)
  have a: "length (matchCharacters cs) \<le> length cs" by (rule matchCharacters_length_le)
  have b: "length (matchCharacters (l # cs)) \<le> length (l # cs)"
    by (rule matchCharacters_length_le)
  show ?case
  proof (cases "isHighSurrogate h \<and> isLowSurrogate l")
    case True
    with a show ?thesis by (auto dest: high_is_surrogate)
  next
    case False
    show ?thesis
    proof (cases "isSurrogate h")
      case True
      with False b show ?thesis by auto
    next
      case ns: False
      from "3.IH"(2) [OF False ns] False ns show ?thesis by auto
    qed
  qed
qed

text \<open>
  C8, as amended. For every string, the surrogate-aware length is the number of elements
  of the array-ized sequence and is at most the number of code units, with equality
  exactly when the string has no surrogate code unit at all. For every string without an
  unpaired surrogate, the concatenation of the sequence is the string itself, and the
  length equals the number of code units exactly when the string has no surrogate pair.
\<close>

theorem toArray_well_formed:
  "length_Jaco w = length (toArray w)
   \<and> length_Jaco w \<le> size_Jaco w
   \<and> (length_Jaco w = size_Jaco w) = (\<not> list_ex isSurrogate (buffer w))
   \<and> (wellFormed (buffer w) \<longrightarrow>
        concat (toArray w) = buffer w
        \<and> (length_Jaco w = size_Jaco w) = (\<not> hasSurrogatePair (buffer w)))"
proof (intro conjI impI)
  show "length_Jaco w = length (toArray w)"
    by (simp add: length_Jaco_def)
  show "length_Jaco w \<le> size_Jaco w"
    by (simp add: length_Jaco_def size_Jaco_def toArray_def matchCharacters_length_le)
  show "(length_Jaco w = size_Jaco w) = (\<not> list_ex isSurrogate (buffer w))"
    unfolding length_Jaco_def size_Jaco_def toArray_def
    by (rule matchCharacters_length_surrogates)
next
  assume "wellFormed (buffer w)"
  then show "concat (toArray w) = buffer w"
    unfolding toArray_def by (rule matchCharacters_concat)
next
  assume "wellFormed (buffer w)"
  then show "(length_Jaco w = size_Jaco w) = (\<not> hasSurrogatePair (buffer w))"
    unfolding length_Jaco_def size_Jaco_def toArray_def
    by (rule matchCharacters_length_pairs)
qed

theorem toArray_well_formed_witness:
  "wellFormed (buffer \<lparr>buffer = [0x61, 0xD83D, 0xDE00]\<rparr>)
   \<and> concat (toArray \<lparr>buffer = [0x61, 0xD83D, 0xDE00]\<rparr>) = [0x61, 0xD83D, 0xDE00]
   \<and> length_Jaco \<lparr>buffer = [0x61, 0xD83D, 0xDE00]\<rparr> \<noteq> size_Jaco \<lparr>buffer = [0x61, 0xD83D, 0xDE00]\<rparr>
   \<and> hasSurrogatePair [0x61, 0xD83D, 0xDE00]"
proof -
  let ?w = "\<lparr>buffer = [0x61, 0xD83D, 0xDE00]\<rparr>"
  have wf: "wellFormed (buffer ?w)"
    by (simp add: isSurrogate_def isHighSurrogate_def isLowSurrogate_def)
  have pair: "hasSurrogatePair (buffer ?w)"
    by (simp add: isHighSurrogate_def isLowSurrogate_def)
  from toArray_well_formed [of ?w] wf
  have "concat (toArray ?w) = buffer ?w"
    and "(length_Jaco ?w = size_Jaco ?w) = (\<not> hasSurrogatePair (buffer ?w))"
    by blast+
  with wf pair show ?thesis by simp
qed

text \<open>
  C8 as stated fails at the string of one unpaired high surrogate: the array-izer passes
  the code unit over, so the concatenation is empty, and the length falls below the
  number of code units although the string has no surrogate pair.
\<close>

theorem toArray_lone_surrogate:
  "concat (toArray \<lparr>buffer = [0xD800]\<rparr>) \<noteq> [0xD800]
   \<and> \<not> hasSurrogatePair [0xD800]
   \<and> length_Jaco \<lparr>buffer = [0xD800]\<rparr> \<noteq> size_Jaco \<lparr>buffer = [0xD800]\<rparr>"
  by (simp add: toArray_def length_Jaco_def size_Jaco_def isSurrogate_def)

subsection \<open>\<open>repeat\<close>\<close>

lemma pushTimes_replicate: "pushTimes n s res = res @ replicate n s"
  by (induction n arbitrary: res) (simp_all add: replicate_app_Cons_same)

text \<open>
  C10. \<open>repeat\<close> raises its error exactly at plus infinity. At a finite count it raises
  nothing: a negative count gives the empty string, any other count repeats the buffer
  as often as the count rounded down says; \<open>repeat(-3)\<close> gives the empty string and
  \<open>repeat(2.9)\<close> the buffer twice.
\<close>

theorem repeat_error_iff_infinite:
  "(isl (repeat w count) = (count = PosInfinity))
   \<and> repeat w PosInfinity = Inl RangeError
   \<and> repeat w (Finite q) =
       Inr (w\<lparr>buffer := (if q < 0 then [] else concat (replicate (nat \<lfloor>q\<rfloor>) (buffer w)))\<rparr>)
   \<and> repeat w (Finite (- 3)) = Inr (w\<lparr>buffer := []\<rparr>)
   \<and> repeat w (Finite 2.9) = Inr (w\<lparr>buffer := buffer w @ buffer w\<rparr>)"
proof -
  have a: "isl (repeat w count) = (count = PosInfinity)"
    by (cases count) (simp_all add: repeat_def)
  have b: "repeat w PosInfinity = Inl RangeError"
    by (simp add: repeat_def)
  have c: "repeat w (Finite q) =
       Inr (w\<lparr>buffer := (if q < 0 then [] else concat (replicate (nat \<lfloor>q\<rfloor>) (buffer w)))\<rparr>)" for q
  proof (cases "q < 0")
    case True
    then have "nat \<lfloor>max q 0\<rfloor> = 0" by (simp add: max_def)
    with True show ?thesis by (simp add: repeat_def)
  next
    case False
    then have "max q 0 = q" by (simp add: max_def)
    with False show ?thesis by (simp add: repeat_def pushTimes_replicate)
  qed
  have "\<lfloor>(29/10 :: rat)\<rfloor> = 2" by (rule floor_unique) simp_all
  then have f: "nat \<lfloor>(29/10 :: rat)\<rfloor> = 2" by simp
  have d: "repeat w (Finite (- 3)) = Inr (w\<lparr>buffer := []\<rparr>)"
    using c [of "- 3"] by simp
  have e: "repeat w (Finite 2.9) = Inr (w\<lparr>buffer := buffer w @ buffer w\<rparr>)"
    using c [of "2.9"] f by (simp add: numeral_2_eq_2)
  from a b c d e show ?thesis by blast
qed

subsection \<open>\<open>substr\<close>, \<open>search\<close>, \<open>indexOf\<close>\<close>

text \<open>
  C3. \<open>substr\<close> does not change the receiver, but it passes its two arguments to the
  slice of the platform, which reads the second as an end index, and so equals \<open>slice\<close>:
  on the buffer \<open>abcdef\<close>, \<open>substr(3, 2)\<close> is the empty string, where two characters
  from index 3 on are \<open>de\<close>.
\<close>

theorem substr_is_slice:
  "substr w start len = slice w start len
   \<and> buffer (substr \<lparr>buffer = [0x61, 0x62, 0x63, 0x64, 0x65, 0x66]\<rparr> 3 (Some 2)) = []
   \<and> String_substr [0x61, 0x62, 0x63, 0x64, 0x65, 0x66] 3 (Some 2) = [0x64, 0x65]"
  by (simp add: substr_def slice_def new_Jaco_def String_slice_def String_substr_def
      clampIndex_def)

text \<open>
  C4. When the pattern matches nowhere, the split gives the whole buffer as its first
  piece, and \<open>search\<close> returns the length of the buffer: 3 for \<open>x\<close> in \<open>abc\<close>, not -1.
  No call of \<open>search\<close> returns -1.
\<close>

theorem search_no_match:
  "search \<lparr>buffer = [0x61, 0x62, 0x63]\<rparr> (Text [0x78]) = Inr 3
   \<and> search w searcher \<noteq> Inr (- 1)"
proof
  show "search \<lparr>buffer = [0x61, 0x62, 0x63]\<rparr> (Text [0x78]) = Inr 3"
    by (simp add: search_def RegExp_new_def isSyntaxCharacter_def RegExp_split_def
        literalMatcher_def length_Jaco_def new_Jaco_def toArray_def isSurrogate_def
        isHighSurrogate_def isLowSurrogate_def)
  show "search w searcher \<noteq> Inr (- 1)"
    by (auto simp: search_def Let_def split: sum.splits)
qed

text \<open>
  C5. For \<open>bc\<close> in \<open>abcd\<close> from index 0 the free function returns 1, the method of the
  wrapper -1: the method looks for an element of the array-ized sequence that equals the
  whole search string.
\<close>

theorem indexOf_surfaces_differ:
  "indexOf_fn [0x61, 0x62, 0x63, 0x64] [0x62, 0x63] 0 = Inr 1
   \<and> indexOf \<lparr>buffer = [0x61, 0x62, 0x63, 0x64]\<rparr> [0x62, 0x63] 0 = - 1"
  by (simp add: indexOf_fn_def slice_fn_def String_slice_def clampIndex_def split_fn_def
      is_fn_def arrayize_def indexOf_def Array_indexOf_def toArray_def isSurrogate_def
      isHighSurrogate_def isLowSurrogate_def)

text \<open>
  Where the pattern matches, \<open>search\<close> does return the index: when the pattern first
  matches at an index \<open>q\<close> inside the buffer, and the match is not the empty match
  at 0, the result is the number of array-ized characters before \<open>q\<close>.
\<close>

lemma splitLoop_skip:
  assumes "q' \<le> q" and "q < length s" and "\<forall>i. q' \<le> i \<and> i < q \<longrightarrow> r s i = None"
  shows "splitLoop r s p q' = splitLoop r s p q"
  using assms
proof (induction "q - q'" arbitrary: q')
  case 0
  then show ?case by (simp del: splitLoop.simps)
next
  case (Suc d)
  then have lt: "q' < q" and n: "r s q' = None" by auto
  from Suc.hyps(1) [of "Suc q'"] Suc.hyps(2) Suc.prems lt
  have "splitLoop r s p (Suc q') = splitLoop r s p q" by (auto simp del: splitLoop.simps)
  moreover from lt Suc.prems(2) n splitLoop.simps [of r s p q']
  have "splitLoop r s p q' = splitLoop r s p (Suc q')"
    by (simp del: splitLoop.simps)
  ultimately show ?case by (simp del: splitLoop.simps)
qed

lemma search_first_match:
  assumes first: "\<forall>i<q. r (buffer w) i = None"
    and at: "r (buffer w) q = Some n"
    and inside: "q < length (buffer w)"
    and nonempty: "0 < q + n"
  shows "search w (Pattern r) = Inr (int (length (matchCharacters (take q (buffer w)))))"
proof -
  let ?s = "buffer w"
  from inside have ne: "?s \<noteq> []" by auto
  have "splitLoop r ?s 0 0 = splitLoop r ?s 0 q"
    using first inside by (intro splitLoop_skip) auto
  also have "\<dots> = take q ?s # splitLoop r ?s (min (q + n) (length ?s)) (min (q + n) (length ?s))"
  proof -
    from inside nonempty have "min (q + n) (length ?s) \<noteq> 0" by (auto simp: min_def)
    with at inside splitLoop.simps [of r ?s 0 q] show ?thesis
      by (simp add: Let_def del: splitLoop.simps)
  qed
  finally have "\<exists>rest. RegExp_split r ?s = take q ?s # rest"
    using ne by (simp add: RegExp_split_def del: splitLoop.simps)
  then show ?thesis
    by (auto simp: search_def length_Jaco_def new_Jaco_def toArray_def)
qed

subsection \<open>\<open>convertProlongedSoundMarks\<close>\<close>

text \<open>A string on which the test holds and which \<open>conv\<close> leaves as it is keeps the loop running.\<close>

lemma convertLoop_stuck:
  assumes t: "kanaWithProlongedSoundMarksPattern x0" and c: "conv x0 = x0"
  shows "convertLoop x0 = None"
proof (rule ccontr)
  assume "convertLoop x0 \<noteq> None"
  then obtain y where r: "convertLoop x0 = Some y" by auto
  have step: "x \<noteq> x0"
    if ih: "\<And>x' y'. f x' = Some y' \<Longrightarrow> x' \<noteq> x0"
      and eq: "(if kanaWithProlongedSoundMarksPattern x then f (conv x) else Some x) = Some y'"
    for f x y'
  proof
    assume "x = x0"
    with eq t c have "f x0 = Some y'" by simp
    from ih [OF this] show False by simp
  qed
  have "convertLoop x = Some y' \<Longrightarrow> x \<noteq> x0" for x y'
    by (rule convertLoop.raw_induct [where P = "\<lambda>x y. x \<noteq> x0"]) (rule step)
  with r show False by blast
qed

lemma conv_iteration_mark: "conv [0x30FD, 0x30FC] = [0x30FD, 0x30FC]"
  by (simp add: conv_def vowelClasses_def)

lemma test_iteration_mark: "kanaWithProlongedSoundMarksPattern [0x30FD, 0x30FC]"
  by (simp add: inClass_def inRanges_def HIRAGANA_CHARS_def KATAKANA_CHARS_def)

text \<open>
  C1. \<open>convertProlongedSoundMarks\<close> does not return on the katakana iteration mark
  followed by the prolonged sound mark: the test of the loop holds, since U+30FD is in the
  katakana class, and no replacement of \<open>conv\<close> applies, since the iteration mark is in
  no vowel class; the loop repeats on the same string forever.
\<close>

theorem convertProlongedSoundMarks_diverges:
  "convertProlongedSoundMarks \<lparr>buffer = [0x30FD, 0x30FC]\<rparr> = None"
  by (simp add: convertProlongedSoundMarks_def convertLoop_stuck [OF test_iteration_mark conv_iteration_mark])

text \<open>On a kana with a vowel class the loop ends: two marks after \<open>ko\<close> take two passes.\<close>

lemma convertProlongedSoundMarks_two_passes:
  "convertProlongedSoundMarks \<lparr>buffer = [0x3053, 0x30FC, 0x30FC]\<rparr>
     = Some \<lparr>buffer = [0x3053, 0x304A, 0x304A]\<rparr>"
proof -
  have t1: "kanaWithProlongedSoundMarksPattern [0x3053, 0x30FC, 0x30FC]"
    by (simp add: inClass_def inRanges_def HIRAGANA_CHARS_def KATAKANA_CHARS_def)
  have c1: "conv [0x3053, 0x30FC, 0x30FC] = [0x3053, 0x304A, 0x30FC]"
    by (simp add: conv_def vowelClasses_def)
  have t2: "kanaWithProlongedSoundMarksPattern [0x3053, 0x304A, 0x30FC]"
    by (simp add: inClass_def inRanges_def HIRAGANA_CHARS_def KATAKANA_CHARS_def)
  have c2: "conv [0x3053, 0x304A, 0x30FC] = [0x3053, 0x304A, 0x304A]"
    by (simp add: conv_def vowelClasses_def)
  have t3: "\<not> kanaWithProlongedSoundMarksPattern [0x3053, 0x304A, 0x304A]"
    by (simp add: inClass_def inRanges_def HIRAGANA_CHARS_def KATAKANA_CHARS_def)
  have "convertLoop [0x3053, 0x30FC, 0x30FC] = convertLoop [0x3053, 0x304A, 0x30FC]"
    using t1 c1 by (subst convertLoop.simps) simp
  also have "\<dots> = convertLoop [0x3053, 0x304A, 0x304A]"
    using t2 c2 by (subst convertLoop.simps) simp
  also have "\<dots> = Some [0x3053, 0x304A, 0x304A]"
    using t3 by (subst convertLoop.simps) simp
  finally show ?thesis by (simp add: convertProlongedSoundMarks_def)
qed

subsection \<open>The width conversions of katakana\<close>

lemma voicedPairs_wide:
  "list_all (\<lambda>(n, w). toWideKatakana \<lparr>buffer = n\<rparr> = \<lparr>buffer = w\<rparr>) voicedPairs"
  by code_simp

lemma voicedPairs_narrow:
  "list_all (\<lambda>(n, w). toNarrowKatakana \<lparr>buffer = w\<rparr> False = \<lparr>buffer = n\<rparr>) voicedPairs"
  by code_simp

lemma voicedPairs_tables:
  "length voicedPairs = 30
   \<and> map (\<lambda>(n, w). (w, n)) voicedPairs = filter (\<lambda>(w, n). length n = 2) narrowKatakanaTable"
  by code_simp

text \<open>
  C9. For each of the thirty voiced and semi-voiced pairs of the width tables, the wide
  conversion of the narrow digraph is the precomposed character and the narrow conversion
  of the precomposed character is the digraph; so wide then narrow gives the digraph back,
  and narrow then wide the precomposed character.
\<close>

theorem width_round_trip:
  "\<forall>(n, w) \<in> set voicedPairs.
     buffer (toWideKatakana \<lparr>buffer = n\<rparr>) = w
     \<and> buffer (toNarrowKatakana (toWideKatakana \<lparr>buffer = n\<rparr>) False) = n
     \<and> buffer (toNarrowKatakana \<lparr>buffer = w\<rparr> False) = n
     \<and> buffer (toWideKatakana (toNarrowKatakana \<lparr>buffer = w\<rparr> False)) = w"
proof (clarify)
  fix n w assume m: "(n, w) \<in> set voicedPairs"
  from m voicedPairs_wide have a: "toWideKatakana \<lparr>buffer = n\<rparr> = \<lparr>buffer = w\<rparr>"
    by (auto simp: list_all_iff)
  from m voicedPairs_narrow have b: "toNarrowKatakana \<lparr>buffer = w\<rparr> False = \<lparr>buffer = n\<rparr>"
    by (auto simp: list_all_iff)
  from a b show "buffer (toWideKatakana \<lparr>buffer = n\<rparr>) = w
     \<and> buffer (toNarrowKatakana (toWideKatakana \<lparr>buffer = n\<rparr>) False) = n
     \<and> buffer (toNarrowKatakana \<lparr>buffer = w\<rparr> False) = n
     \<and> buffer (toWideKatakana (toNarrowKatakana \<lparr>buffer = w\<rparr> False)) = w"
    by simp
qed

theorem width_round_trip_witness:
  "([0xFF76, 0xFF9E], [0x30AC]) \<in> set voicedPairs
   \<and> buffer (toNarrowKatakana (toWideKatakana \<lparr>buffer = [0xFF76, 0xFF9E]\<rparr>) False) = [0xFF76, 0xFF9E]
   \<and> buffer (toWideKatakana (toNarrowKatakana \<lparr>buffer = [0x30AC]\<rparr> False)) = [0x30AC]"
proof -
  have m: "([0xFF76, 0xFF9E], [0x30AC]) \<in> set voicedPairs"
    by (simp add: voicedPairs_def wideKatakanaTable_def)
  from width_round_trip m
  have "case ([0xFF76, 0xFF9E], [0x30AC]) of (n, w) \<Rightarrow>
     buffer (toWideKatakana \<lparr>buffer = n\<rparr>) = w
     \<and> buffer (toNarrowKatakana (toWideKatakana \<lparr>buffer = n\<rparr>) False) = n
     \<and> buffer (toNarrowKatakana \<lparr>buffer = w\<rparr> False) = n
     \<and> buffer (toWideKatakana (toNarrowKatakana \<lparr>buffer = w\<rparr> False)) = w"
    by (rule bspec)
  with m show ?thesis by simp
qed

subsection \<open>\<open>isOnly\<close>\<close>

lemma atEol_no_terminator:
  "\<not> list_ex isLineTerminator cs \<Longrightarrow> atEol cs = (cs = [])"
  by (cases cs) (simp_all add: atEol_def)

lemma plusThenEol_single_line:
  "\<not> list_ex isLineTerminator s \<Longrightarrow> (plusThenEol cls s \<noteq> None) = (s \<noteq> [] \<and> list_all cls s)"
proof (induction s)
  case Nil
  then show ?case by simp
next
  case (Cons c cs)
  then have nt: "\<not> list_ex isLineTerminator cs" by simp
  from Cons.IH [OF nt] atEol_no_terminator [OF nt] show ?case
    by (cases "plusThenEol cls cs") auto
qed

lemma atBol_single_line:
  assumes "\<not> list_ex isLineTerminator s" and "q \<le> length s"
  shows "atBol s q = (q = 0)"
proof (cases "q = 0")
  case True
  then show ?thesis by (simp add: atBol_def)
next
  case False
  with assms(2) have "s ! (q - 1) \<in> set s" by simp
  with assms(1) have "\<not> isLineTerminator (s ! (q - 1))" by (auto simp: list_ex_iff)
  with False show ?thesis by (simp add: atBol_def)
qed

lemma plusThenEol_whole:
  "s \<noteq> [] \<Longrightarrow> list_all cls s \<Longrightarrow> plusThenEol cls s \<noteq> None"
proof (induction s)
  case Nil
  then show ?case by simp
next
  case (Cons c cs)
  show ?case
  proof (cases cs)
    case Nil
    with Cons.prems show ?thesis by (simp add: atEol_def)
  next
    case (Cons d ds)
    with Cons.IH Cons.prems have "plusThenEol cls cs \<noteq> None" by simp
    with Cons.prems show ?thesis by auto
  qed
qed

lemma test_at_start:
  assumes "plusThenEol cls s \<noteq> None"
  shows "RegExp_test (linesOfClass cls) s"
proof -
  from assms have "linesOfClass cls s 0 \<noteq> None" by (simp add: linesOfClass_def atBol_def)
  moreover have "0 \<in> set [0..<Suc (length s)]" by simp
  ultimately show ?thesis
    unfolding RegExp_test_def list_ex_iff by blast
qed

lemma test_single_line:
  assumes nt: "\<not> list_ex isLineTerminator s"
  shows "RegExp_test (linesOfClass cls) s = (plusThenEol cls s \<noteq> None)"
proof
  assume "RegExp_test (linesOfClass cls) s"
  then obtain q where q: "q \<in> set [0..<Suc (length s)]"
    and m: "linesOfClass cls s q \<noteq> None"
    unfolding RegExp_test_def list_ex_iff by blast
  from q have le: "q \<le> length s" by auto
  from m have bol: "atBol s q" and p: "plusThenEol cls (drop q s) \<noteq> None"
    by (auto simp: linesOfClass_def split: if_splits)
  from atBol_single_line [OF nt le] bol have "q = 0" by simp
  with p show "plusThenEol cls s \<noteq> None" by simp
next
  assume "plusThenEol cls s \<noteq> None"
  then show "RegExp_test (linesOfClass cls) s" by (rule test_at_start)
qed

text \<open>
  C2, as amended. For every buffer and every character set that \<open>classOf\<close> reads from the
  supplied string, \<open>isOnly\<close> is true whenever the buffer is not empty and each of its
  characters is in the set; for a buffer without a line terminator it is true only then.
\<close>

theorem isOnly_of_class:
  assumes "classOf characters = Inr cls"
  shows "(buffer w \<noteq> [] \<and> list_all cls (buffer w) \<longrightarrow> isOnly w characters = Inr True)
    \<and> (\<not> list_ex isLineTerminator (buffer w) \<longrightarrow>
         isOnly w characters = Inr (buffer w \<noteq> [] \<and> list_all cls (buffer w)))"
proof (intro conjI impI)
  assume "buffer w \<noteq> [] \<and> list_all cls (buffer w)"
  then have "plusThenEol cls (buffer w) \<noteq> None" by (simp add: plusThenEol_whole)
  then have "RegExp_test (linesOfClass cls) (buffer w)" by (rule test_at_start)
  with assms show "isOnly w characters = Inr True" by (simp add: isOnly_def test_def)
next
  assume nt: "\<not> list_ex isLineTerminator (buffer w)"
  have "RegExp_test (linesOfClass cls) (buffer w) = (buffer w \<noteq> [] \<and> list_all cls (buffer w))"
    using test_single_line [OF nt] plusThenEol_single_line [OF nt] by blast
  with assms show "isOnly w characters = Inr (buffer w \<noteq> [] \<and> list_all cls (buffer w))"
    by (simp add: isOnly_def test_def)
qed

theorem isOnly_of_class_witness:
  "classOf [0x61, 0x2D, 0x7A] = Inr (\<lambda>c. inRanges [(0x61, 0x7A)] c \<noteq> False)
   \<and> buffer \<lparr>buffer = [0x61, 0x62, 0x63]\<rparr> \<noteq> []
   \<and> list_all (\<lambda>c. inRanges [(0x61, 0x7A)] c \<noteq> False) (buffer \<lparr>buffer = [0x61, 0x62, 0x63]\<rparr>)
   \<and> \<not> list_ex isLineTerminator (buffer \<lparr>buffer = [0x61, 0x31, 0x63]\<rparr>)
   \<and> isOnly \<lparr>buffer = [0x61, 0x62, 0x63]\<rparr> [0x61, 0x2D, 0x7A] = Inr True
   \<and> isOnly \<lparr>buffer = [0x61, 0x31, 0x63]\<rparr> [0x61, 0x2D, 0x7A] = Inr False"
proof -
  let ?cls = "\<lambda>c. inRanges [(0x61, 0x7A)] c \<noteq> False"
  have c: "classOf [0x61, 0x2D, 0x7A] = Inr ?cls"
    by (simp add: classOf_def)
  have a: "buffer \<lparr>buffer = [0x61, 0x62, 0x63]\<rparr> \<noteq> []
           \<and> list_all ?cls (buffer \<lparr>buffer = [0x61, 0x62, 0x63]\<rparr>)"
    by (simp add: inRanges_def)
  have n: "\<not> list_ex isLineTerminator (buffer \<lparr>buffer = [0x61, 0x31, 0x63]\<rparr>)"
    by (simp add: isLineTerminator_def)
  from isOnly_of_class [OF c, of "\<lparr>buffer = [0x61, 0x62, 0x63]\<rparr>"] a
  have t: "isOnly \<lparr>buffer = [0x61, 0x62, 0x63]\<rparr> [0x61, 0x2D, 0x7A] = Inr True"
    by blast
  from isOnly_of_class [OF c, of "\<lparr>buffer = [0x61, 0x31, 0x63]\<rparr>"] n
  have "isOnly \<lparr>buffer = [0x61, 0x31, 0x63]\<rparr> [0x61, 0x2D, 0x7A]
          = Inr (buffer \<lparr>buffer = [0x61, 0x31, 0x63]\<rparr> \<noteq> []
                 \<and> list_all ?cls (buffer \<lparr>buffer = [0x61, 0x31, 0x63]\<rparr>))"
    by blast
  then have f: "isOnly \<lparr>buffer = [0x61, 0x31, 0x63]\<rparr> [0x61, 0x2D, 0x7A] = Inr False"
    by (simp add: inRanges_def)
  from c a n t f show ?thesis by blast
qed

text \<open>
  C2 as stated fails at the empty buffer, which has no character outside the set and
  yet gives false (the pattern asks for one character at least), and at the two lines
  \<open>a\<close> and \<open>b\<close> with the set \<open>a\<close>, which give true although \<open>b\<close> and the line feed
  are outside the set: with the flag \<open>m\<close> one line within the set is enough.
\<close>

theorem isOnly_empty_and_lines:
  "isOnly \<lparr>buffer = []\<rparr> [0x61] = Inr False
   \<and> isOnly \<lparr>buffer = [0x61, 0x0A, 0x62]\<rparr> [0x61] = Inr True"
  by (simp add: isOnly_def classOf_def inRanges_def test_def RegExp_test_def linesOfClass_def
      atBol_def atEol_def isLineTerminator_def)

text \<open>A string without hyphen, caret, backslash and closing bracket is the set of its characters.\<close>

lemma classRanges_plain:
  "\<not> list_ex (\<lambda>c. c = 0x2D) cs \<Longrightarrow> classRanges cs = map (\<lambda>a. (a, a)) cs"
  by (induction cs rule: classRanges.induct) auto

lemma classOf_plain:
  assumes "\<not> list_ex (\<lambda>c. c = 0x5C \<or> c = 0x5D \<or> c = 0x5E \<or> c = 0x2D) characters"
  shows "classOf characters = Inr (\<lambda>c. c \<in> set characters)"
proof -
  from assms have a: "\<not> list_ex (\<lambda>c. c = 0x5C \<or> c = 0x5D) characters"
    and b: "\<not> list_ex (\<lambda>c. c = 0x2D) characters"
    and c: "characters \<noteq> [] \<Longrightarrow> hd characters \<noteq> 0x5E"
    by (auto simp: list_ex_iff)
  have d: "inRanges (map (\<lambda>a. (a, a)) characters) x = (x \<in> set characters)" for x
    by (auto simp: inRanges_def list_ex_iff)
  have e: "\<not> list_ex (\<lambda>(a, b). b < a) (map (\<lambda>a. (a, a)) characters)"
    by (auto simp: list_ex_iff)
  from a c e show ?thesis
    by (auto simp: classOf_def classRanges_plain [OF b] d Let_def)
qed

subsection \<open>Tables of single characters\<close>

lemma replaceAll_single: "replaceAll [k] [v] s = map (replaceChar k v) s"
  by (induction s) (simp_all add: replaceChar_def)

lemma replaceChars_remove: "replaceChars cs [] s = filter (\<lambda>c. c \<notin> set cs) s"
  by (induction s) (simp_all add: replaceChars_def)

lemma fold_singles:
  "list_all (\<lambda>(k, v). length k = 1 \<and> length v = 1) tbl \<Longrightarrow>
     fold (\<lambda>(needle, replace) s. replaceAll needle replace s) tbl s = map (charMap tbl) s"
proof (induction tbl arbitrary: s)
  case Nil
  then show ?case by (simp add: charMap_def)
next
  case (Cons e tbl)
  obtain k v where e: "e = (k, v)" by (cases e)
  with Cons.prems obtain a b where k: "k = [a]" and v: "v = [b]"
    by (auto simp: length_Suc_conv)
  from Cons.prems have "list_all (\<lambda>(k, v). length k = 1 \<and> length v = 1) tbl" by simp
  from Cons.IH [OF this] show ?case
    by (simp add: e k v replaceAll_single charMap_def comp_def)
qed

lemma charMap_not_key: "c \<notin> set (map (\<lambda>e. hd (fst e)) tbl) \<Longrightarrow> charMap tbl c = c"
  by (induction tbl) (auto simp: charMap_def replaceChar_def)

lemma charMap_map_of:
  assumes "distinct (map (\<lambda>e. hd (fst e)) tbl)"
    and "list_all (\<lambda>e. hd (snd e) \<notin> set (map (\<lambda>e. hd (fst e)) tbl)) tbl"
  shows "charMap tbl c =
           (case map_of (map (\<lambda>(k, v). (hd k, hd v)) tbl) c of Some v \<Rightarrow> v | None \<Rightarrow> c)"
  using assms
proof (induction tbl arbitrary: c)
  case Nil
  then show ?case by (simp add: charMap_def)
next
  case (Cons e tbl)
  obtain k v where e: "e = (k, v)" by (cases e)
  from Cons.prems have d: "distinct (map (\<lambda>e. hd (fst e)) tbl)"
    by (simp add: e)
  from Cons.prems have i: "list_all (\<lambda>e. hd (snd e) \<notin> set (map (\<lambda>e. hd (fst e)) tbl)) tbl"
    by (simp add: e list_all_iff)
  from Cons.prems have nk: "hd v \<notin> set (map (\<lambda>e. hd (fst e)) tbl)"
    by (simp add: e)
  have step: "charMap (e # tbl) c = charMap tbl (replaceChar (hd k) (hd v) c)"
    by (simp add: charMap_def e)
  show ?case
  proof (cases "c = hd k")
    case True
    with step charMap_not_key [OF nk] show ?thesis by (simp add: e replaceChar_def)
  next
    case False
    with step Cons.IH [OF d i, of c] show ?thesis by (simp add: e replaceChar_def)
  qed
qed

lemma voicedTable_singles: "list_all (\<lambda>(k, v). length k = 1 \<and> length v = 1) voicedTable"
  by (simp add: voicedTable_def)

lemma voicedTable_distinct: "distinct (map (\<lambda>e. hd (fst e)) voicedTable)"
  by code_simp

lemma voicedTable_no_chain:
  "list_all (\<lambda>e. hd (snd e) \<notin> set (map (\<lambda>e. hd (fst e)) voicedTable)) voicedTable"
  by code_simp

lemma voicedTable_voicedForm:
  assumes "c \<noteq> 0x30F2" and "c \<noteq> 0x30FA"
  shows "charMap voicedTable c = voicedForm c"
proof -
  have "map_of (map (\<lambda>(k, v). (hd k, hd v)) voicedTable) c = map_of voicedFormTable c"
    using assms by (simp add: voicedTable_def voicedFormTable_def)
  then show ?thesis
    by (simp add: charMap_map_of [OF voicedTable_distinct voicedTable_no_chain] voicedForm_def)
qed

lemma addVoicedMarks_buffer:
  "buffer (addVoicedMarks w)
     = map (charMap voicedTable) (filter (\<lambda>c. \<not> isSoundMark c) (buffer w))"
proof -
  have "filter (\<lambda>c. c \<notin> set [0x309C, 0x309A, 0xFF9F])
          (filter (\<lambda>c. c \<notin> set [0x309B, 0x3099, 0xFF9E]) s)
        = filter (\<lambda>c. \<not> isSoundMark c) s" for s :: jstring
    by (induction s) (auto simp: isSoundMark_def)
  then show ?thesis
    by (simp add: addVoicedMarks_def replaceFromMap_def remove_def replaceChars_remove
        fold_singles [OF voicedTable_singles])
qed

text \<open>
  C6, as amended. \<open>addVoicedMarks\<close> first deletes every standalone voicing and
  semi-voicing mark. Of the characters that remain, in their order, each one other than
  katakana \<open>wo\<close> (U+30F2) and its voiced form (U+30FA) becomes its voiced form: a
  voicing-eligible base kana is mapped to its voiced character, a character without a
  voiced counterpart and an already voiced character stay as they are.
\<close>

theorem addVoicedMarks_pointwise:
  "list_all2 (\<lambda>c d. c \<noteq> 0x30F2 \<and> c \<noteq> 0x30FA \<longrightarrow> d = voicedForm c)
     (filter (\<lambda>c. \<not> isSoundMark c) (buffer w)) (buffer (addVoicedMarks w))"
  unfolding addVoicedMarks_buffer list_all2_map2
  by (rule list_all2_refl) (simp add: voicedTable_voicedForm)

theorem addVoicedMarks_pointwise_witness:
  "buffer (addVoicedMarks \<lparr>buffer = [0x304B, 0x309B, 0x61, 0x30EF, 0x304C]\<rparr>)
     = [0x304C, 0x61, 0x30F7, 0x304C]"
proof -
  have f: "filter (\<lambda>c. \<not> isSoundMark c) (buffer \<lparr>buffer = [0x304B, 0x309B, 0x61, 0x30EF, 0x304C]\<rparr>)
             = [0x304B, 0x61, 0x30EF, 0x304C]"
    by (simp add: isSoundMark_def)
  have v: "voicedForm 0x304B = 0x304C" "voicedForm 0x61 = 0x61" "voicedForm 0x30EF = 0x30F7"
    "voicedForm 0x304C = 0x304C"
    by (simp_all add: voicedForm_def voicedFormTable_def)
  from addVoicedMarks_pointwise [of "\<lparr>buffer = [0x304B, 0x309B, 0x61, 0x30EF, 0x304C]\<rparr>"]
  show ?thesis
    unfolding f by (simp add: list_all2_Cons1 v)
qed

text \<open>
  C6 as stated fails at a standalone mark, which has no voiced counterpart and is deleted,
  and at the \<open>wo\<close> row: the entry of the table is written from the voiced character to
  the base one, so U+30F2 stays and the already voiced U+30FA loses its mark.
\<close>

theorem addVoicedMarks_marks_and_wo:
  "buffer (addVoicedMarks \<lparr>buffer = [0x3042, 0x309B]\<rparr>) = [0x3042]
   \<and> buffer (addVoicedMarks \<lparr>buffer = [0x30F2]\<rparr>) = [0x30F2]
   \<and> buffer (addVoicedMarks \<lparr>buffer = [0x30FA]\<rparr>) = [0x30F2]
   \<and> voicedForm 0x30F2 = 0x30FA"
proof -
  have a: "buffer (addVoicedMarks \<lparr>buffer = [0x3042, 0x309B]\<rparr>) = [0x3042]" by code_simp
  have b: "buffer (addVoicedMarks \<lparr>buffer = [0x30F2]\<rparr>) = [0x30F2]" by code_simp
  have c: "buffer (addVoicedMarks \<lparr>buffer = [0x30FA]\<rparr>) = [0x30F2]" by code_simp
  have d: "voicedForm 0x30F2 = 0x30FA" by (simp add: voicedForm_def voicedFormTable_def)
  from a b c d show ?thesis by blast
qed

subsection \<open>\<open>toHiragana\<close> with combination\<close>

lemma occurs_empty: "occurs [] s"
  by (cases s) simp_all

lemma replaceAll_absent: "\<not> occurs k s \<Longrightarrow> replaceAll k v s = s"
proof (induction s)
  case Nil
  then show ?case by simp
next
  case (Cons c cs)
  from Cons.prems occurs_empty have "k \<noteq> []" by blast
  with Cons show ?case by simp
qed

lemma fold_absent:
  "list_all (\<lambda>(k, v). \<not> occurs k s) tbl \<Longrightarrow>
     fold (\<lambda>(needle, replace) s. replaceAll needle replace s) tbl s = s"
  by (induction tbl) (auto simp: replaceAll_absent)

lemma combiningMarkTable_buffer:
  "buffer (replaceFromMap w combiningMarkTable) = map toCombiningMark (buffer w)"
proof -
  have s: "list_all (\<lambda>(k, v). length k = 1 \<and> length v = 1) combiningMarkTable"
    by (simp add: combiningMarkTable_def)
  have "charMap combiningMarkTable c = toCombiningMark c" for c
    by (simp add: charMap_def combiningMarkTable_def replaceChar_def toCombiningMark_def)
  then have "charMap combiningMarkTable = toCombiningMark" by (rule ext)
  then show ?thesis
    by (simp add: replaceFromMap_def fold_singles [OF s])
qed

lemma toHiragana_True:
  "toHiragana w True = combinateSoundMarks (toHiragana w False) False"
  by (simp add: toHiragana_def Let_def)

text \<open>
  C7, as amended. When in the hiragana conversion without combination no base kana of the
  combination table is directly followed by the voicing mark the table joins it with
  (spacing or combining), the conversion with combination differs from it only in that
  every spacing voicing mark, after a kana or not, has become the combining mark.
\<close>

theorem toHiragana_combining_marks:
  assumes "list_all (\<lambda>(k, v). \<not> occurs k (map toCombiningMark (buffer (toHiragana w False))))
             combineTable"
  shows "buffer (toHiragana w True) = map toCombiningMark (buffer (toHiragana w False))"
  using fold_absent [OF assms]
  by (simp add: toHiragana_True combinateSoundMarks_def combiningMarkTable_buffer
      replaceFromMap_def [of _ combineTable])

theorem toHiragana_combining_marks_witness:
  "list_all (\<lambda>(k, v). \<not> occurs k
       (map toCombiningMark (buffer (toHiragana \<lparr>buffer = [0x30F7, 0x30AC]\<rparr> False)))) combineTable
   \<and> buffer (toHiragana \<lparr>buffer = [0x30F7, 0x30AC]\<rparr> False) = [0x308F, 0x309B, 0x304C]
   \<and> buffer (toHiragana \<lparr>buffer = [0x30F7, 0x30AC]\<rparr> True) = [0x308F, 0x3099, 0x304C]"
proof -
  have h: "list_all (\<lambda>(k, v). \<not> occurs k
       (map toCombiningMark (buffer (toHiragana \<lparr>buffer = [0x30F7, 0x30AC]\<rparr> False)))) combineTable"
    by code_simp
  have f: "buffer (toHiragana \<lparr>buffer = [0x30F7, 0x30AC]\<rparr> False) = [0x308F, 0x309B, 0x304C]"
    by code_simp
  from toHiragana_combining_marks [OF h] f h show ?thesis
    by (simp add: toCombiningMark_def)
qed

text \<open>
  C7 as stated fails at a spacing mark after a Latin letter, which is no kana and still
  sees its mark changed, and at hiragana \<open>ka\<close> with a spacing mark, which the conversion
  with combination merges into the precomposed \<open>ga\<close>.
\<close>

theorem toHiragana_marks_and_merge:
  "buffer (toHiragana \<lparr>buffer = [0x61, 0x309B]\<rparr> False) = [0x61, 0x309B]
   \<and> buffer (toHiragana \<lparr>buffer = [0x61, 0x309B]\<rparr> True) = [0x61, 0x3099]
   \<and> buffer (toHiragana \<lparr>buffer = [0x304B, 0x309B]\<rparr> False) = [0x304B, 0x309B]
   \<and> buffer (toHiragana \<lparr>buffer = [0x304B, 0x309B]\<rparr> True) = [0x304C]"
proof -
  have a: "buffer (toHiragana \<lparr>buffer = [0x61, 0x309B]\<rparr> False) = [0x61, 0x309B]" by code_simp
  have b: "buffer (toHiragana \<lparr>buffer = [0x61, 0x309B]\<rparr> True) = [0x61, 0x3099]" by code_simp
  have c: "buffer (toHiragana \<lparr>buffer = [0x304B, 0x309B]\<rparr> False) = [0x304B, 0x309B]" by code_simp
  have d: "buffer (toHiragana \<lparr>buffer = [0x304B, 0x309B]\<rparr> True) = [0x304C]" by code_simp
  from a b c d show ?thesis by blast
qed

end
